theory Spec2Isabelle
  imports Complex_Main "HOL-Library.Sublist"
begin

section \<open>Data model of \<open>src/utils.ts\<close>\<close>

text \<open>
  Public keys, transaction signatures and built (serialised) transactions are opaque
  to the client code: it only passes them on. They are strings here.
\<close>

type_synonym pubkey = string
type_synonym signature = string
type_synonym tx = string

record keypair =
  publicKey :: pubkey
  secretKey :: string

text \<open>\<open>anchor.Program\<close>: the client reads its program id and the RPC endpoint of its
  provider's connection.\<close>

record program =
  programId :: pubkey
  rpcEndpoint :: string

datatype commitment = Processed | Confirmed | Finalized

text \<open>The transaction options objects the source builds (\<open>txOpts\<close>).\<close>

record tx_opts =
  commitment :: commitment
  skipPreflight :: bool
  maxRetries :: nat

text \<open>An account handed to \<open>.accounts({...})\<close>: a public key, or the pair
  \<open>[PublicKey, number]\<close> of a derived address and its bump.\<close>

datatype account_arg = Key pubkey | Derived pubkey nat

datatype ix_arg = ArgKey pubkey | ArgBool bool | ArgNum nat

text \<open>A transaction instruction: \<open>SystemProgram.transfer({fromPubkey, toPubkey, lamports})\<close>
  or a method of the game program with its arguments and named accounts.\<close>

datatype instruction =
  SystemTransfer pubkey pubkey nat
| ProgramCall string "ix_arg list" "(string \<times> account_arg) list"

text \<open>The parameter object of \<open>sb.asV0Tx\<close>. The literal \<open>1.3\<close> of the source is the
  rational \<open>13 / 10\<close>.\<close>

record v0tx_params =
  connection :: string
  ixs :: "instruction list"
  payer :: pubkey
  signers :: "keypair list"
  computeUnitPrice :: nat
  computeUnitLimitMultiple :: rat

text \<open>What \<open>simulateTransaction\<close> and \<open>confirmTransaction\<close> resolve to: a response
  whose \<open>err\<close> field is null or describes the failure of the transaction.\<close>

record sim_response =
  sim_err :: "string option"
  sim_logs :: "string list"

record queue =
  pubkey :: pubkey

subsection \<open>Effects\<close>

text \<open>A call either returns, throws (a rejected promise), or ends the process with
  \<open>process.exit(code)\<close>.\<close>

datatype failure = Thrown string | ProcessExit nat

datatype call =
  AsV0Tx v0tx_params
| SimulateTransaction tx tx_opts
| SendTransaction tx tx_opts
| ConfirmTransaction signature commitment
| GetBalance pubkey
| GetMinimumBalanceForRentExemption nat
| GetDefaultQueue string
| LoadData pubkey
| Instruction pubkey string

datatype event =
  Rpc call
| ConsoleLog "string list"
| ConsoleError "string list"
| Question string

text \<open>
  The libraries the client calls (\<open>@solana/web3.js\<close>, \<open>@switchboard-xyz/on-demand\<close>,
  \<open>anchor\<close>, \<open>readline-sync\<close>) and \<open>process.argv\<close> are parameters: each operation reads
  and changes an outside state of type \<open>'n\<close> (the network and the terminal) and returns or
  throws. The record stands for the \<open>connection\<close> argument of the source functions and
  for the connection of the program's provider alike; \<open>asV0Tx\<close> is told the endpoint of the
  latter in its parameters. The lamport amounts that \<open>getBalance\<close> and
  \<open>getMinimumBalanceForRentExemption\<close> return are JavaScript numbers holding non-negative
  integers, each given by the natural number it equals.
\<close>

record 'n services =
  argv :: "string list"
  question :: "'n \<Rightarrow> string \<Rightarrow> string \<times> 'n"
  asV0Tx :: "'n \<Rightarrow> v0tx_params \<Rightarrow> (failure + tx) \<times> 'n"
  simulateTransaction :: "'n \<Rightarrow> tx \<Rightarrow> tx_opts \<Rightarrow> (failure + sim_response) \<times> 'n"
  sendTransaction :: "'n \<Rightarrow> tx \<Rightarrow> tx_opts \<Rightarrow> (failure + signature) \<times> 'n"
  confirmTransaction :: "'n \<Rightarrow> signature \<Rightarrow> commitment \<Rightarrow> (failure + string option) \<times> 'n"
  getBalance :: "'n \<Rightarrow> pubkey \<Rightarrow> (failure + nat) \<times> 'n"
  getMinimumBalanceForRentExemption :: "'n \<Rightarrow> nat \<Rightarrow> (failure + nat) \<times> 'n"
  getDefaultQueue :: "'n \<Rightarrow> string \<Rightarrow> (failure + queue) \<times> 'n"
  loadData :: "'n \<Rightarrow> queue \<Rightarrow> (failure + unit) \<times> 'n"
  instruction :: "'n \<Rightarrow> instruction \<Rightarrow> (failure + instruction) \<times> 'n"

text \<open>The state threaded through the client: the outside state and the trace of
  everything the client did, oldest first.\<close>

record 'n world =
  outside :: 'n
  trace :: "event list"

type_synonym ('n, 'a) io = "'n world \<Rightarrow> (failure + 'a) \<times> 'n world"

definition return_io :: "'a \<Rightarrow> ('n, 'a) io" where
  "return_io x w = (Inr x, w)"

text \<open>\<open>await m\<close> followed by the rest of the function: a failure of \<open>m\<close> ends it.\<close>

definition await :: "('n, 'a) io \<Rightarrow> ('a \<Rightarrow> ('n, 'b) io) \<Rightarrow> ('n, 'b) io" where
  "await m k w = (case m w of (Inl e, w') \<Rightarrow> (Inl e, w') | (Inr x, w') \<Rightarrow> k x w')"

text \<open>\<open>try { m } catch (err) { h }\<close>: only a thrown error is caught, not a process exit.\<close>

definition try_catch :: "('n, 'a) io \<Rightarrow> (string \<Rightarrow> ('n, 'a) io) \<Rightarrow> ('n, 'a) io" where
  "try_catch m h w =
     (case m w of (Inl (Thrown e), w') \<Rightarrow> h e w' | (r, w') \<Rightarrow> (r, w'))"

definition rpc :: "call \<Rightarrow> ('n \<Rightarrow> (failure + 'a) \<times> 'n) \<Rightarrow> ('n, 'a) io" where
  "rpc c f w =
     (case f (outside w) of
        (r, n') \<Rightarrow> (r, w\<lparr>outside := n', trace := trace w @ [Rpc c]\<rparr>))"

definition console_log :: "string list \<Rightarrow> ('n, unit) io" where
  "console_log args w = (Inr (), w\<lparr>trace := trace w @ [ConsoleLog args]\<rparr>)"

definition console_error :: "string list \<Rightarrow> ('n, unit) io" where
  "console_error args w = (Inr (), w\<lparr>trace := trace w @ [ConsoleError args]\<rparr>)"

definition process_exit :: "nat \<Rightarrow> ('n, 'a) io" where
  "process_exit code w = (Inl (ProcessExit code), w)"

text \<open>A library function that touches nothing outside and returns or throws.\<close>

definition throwing :: "failure + 'a \<Rightarrow> ('n, 'a) io" where
  "throwing r w = (r, w)"

definition reader_question :: "'n services \<Rightarrow> string \<Rightarrow> ('n, string) io" where
  "reader_question S prompt w =
     (case question S (outside w) prompt of
        (answer, n') \<Rightarrow> (Inr answer, w\<lparr>outside := n', trace := trace w @ [Question prompt]\<rparr>))"

subsection \<open>JavaScript strings\<close>

text \<open>
  A character is a code point below 256 (Latin-1). On these, \<open>String.prototype.trim\<close>
  removes the white space and line terminators TAB, LF, VT, FF, CR, SP and NBSP from
  both ends, and \<open>toLowerCase\<close> maps \<open>A\<close>-\<open>Z\<close> and the accented capitals
  \<open>0xC0\<close>-\<open>0xDE\<close> (without the multiplication sign \<open>0xD7\<close>) to the letter 32 above.
\<close>

definition isWhiteSpace :: "char \<Rightarrow> bool" where
  "isWhiteSpace c = ((of_char c :: nat) \<in> {9, 10, 11, 12, 13, 32, 160})"

definition trim :: "string \<Rightarrow> string" where
  "trim s = rev (dropWhile isWhiteSpace (rev (dropWhile isWhiteSpace s)))"

definition toLowerCase_char :: "char \<Rightarrow> char" where
  "toLowerCase_char c =
     (let n = (of_char c :: nat)
      in if (65 \<le> n \<and> n \<le> 90) \<or> (192 \<le> n \<and> n \<le> 222 \<and> n \<noteq> 215)
         then char_of (n + 32) else c)"

definition toLowerCase :: "string \<Rightarrow> string" where
  "toLowerCase s = map toLowerCase_char s"

section \<open>The client functions\<close>

subsection \<open>\<open>getUserGuessFromCommandLine\<close>\<close>

text \<open>\<open>process.argv[2]\<close>: \<open>undefined\<close> when the list is too short.\<close>

definition argv2 :: "'n services \<Rightarrow> string option" where
  "argv2 S = (if 2 < length (argv S) then Some (argv S ! 2) else None)"

text \<open>\<open>!userGuessInput\<close>: \<open>undefined\<close> and the empty string are falsy.\<close>

definition falsy :: "string option \<Rightarrow> bool" where
  "falsy v = (case v of None \<Rightarrow> True | Some s \<Rightarrow> s = [])"

definition getUserGuessFromCommandLine :: "'n services \<Rightarrow> ('n, bool) io" where
  \<open>getUserGuessFromCommandLine S =
     await
       (if falsy (argv2 S)
        then await
               (reader_question S ''It is now time to make your prediction: Heads or tails... '')
               (\<lambda>answer. return_io (Some (toLowerCase (trim answer))))
        else return_io (argv2 S))
       (\<lambda>userGuessInput.
          let isValidGuess =
                (userGuessInput = Some ''heads'' \<or> userGuessInput = Some ''tails'')
          in await
               (if \<not> isValidGuess
                then await
                       (console_error [''Please provide a valid guess: "heads" or "tails".''])
                       (\<lambda>_. process_exit 1)
                else return_io ())
               (\<lambda>_. return_io (userGuessInput = Some ''heads'')))\<close>

subsection \<open>\<open>setupQueue\<close>\<close>

definition setupQueue :: "'n services \<Rightarrow> program \<Rightarrow> ('n, pubkey) io" where
  "setupQueue S prog =
     await (rpc (GetDefaultQueue (rpcEndpoint prog))
              (\<lambda>n. getDefaultQueue S n (rpcEndpoint prog)))
       (\<lambda>queueAccount.
     await (console_log [''Queue account'', pubkey queueAccount])
       (\<lambda>_.
     await (try_catch
              (rpc (LoadData (pubkey queueAccount)) (\<lambda>n. loadData S n queueAccount))
              (\<lambda>err.
                 await (console_error
                          [''Queue not found, ensure you are using devnet in your env''])
                   (\<lambda>_. process_exit 1)))
       (\<lambda>_. return_io (pubkey queueAccount))))"

subsection \<open>\<open>handleTransaction\<close>\<close>

definition COMMITMENT :: commitment where
  "COMMITMENT = Confirmed"

definition handleTransaction ::
  "program \<Rightarrow> 'n services \<Rightarrow> instruction list \<Rightarrow> keypair \<Rightarrow> keypair list \<Rightarrow> tx_opts
     \<Rightarrow> ('n, signature) io" where
  "handleTransaction sbProgram S ix kp sgs txOpts =
     (let params = \<lparr>connection = rpcEndpoint sbProgram, ixs = ix, payer = publicKey kp,
                     signers = sgs, computeUnitPrice = 75000,
                     computeUnitLimitMultiple = 13 / 10\<rparr>
      in
     await (rpc (AsV0Tx params) (\<lambda>n. asV0Tx S n params))
       (\<lambda>createTx.
     await (rpc (SimulateTransaction createTx txOpts)
              (\<lambda>n. simulateTransaction S n createTx txOpts))
       (\<lambda>sim.
     await (rpc (SendTransaction createTx txOpts) (\<lambda>n. sendTransaction S n createTx txOpts))
       (\<lambda>sig.
     await (rpc (ConfirmTransaction sig COMMITMENT)
              (\<lambda>n. confirmTransaction S n sig COMMITMENT))
       (\<lambda>_.
     await (console_log [''  Transaction Signature'', sig])
       (\<lambda>_. return_io sig))))))"

subsection \<open>Instructions of the game program\<close>

definition SystemProgram_programId :: pubkey where
  "SystemProgram_programId = replicate 32 (CHR ''1'')"

text \<open>\<open>myProgram.methods.<name>(args).accounts({...}).instruction()\<close> of anchor is an
  awaited library call as well.\<close>

definition methods_instruction ::
  "'n services \<Rightarrow> program \<Rightarrow> string \<Rightarrow> ix_arg list \<Rightarrow> (string \<times> account_arg) list
     \<Rightarrow> ('n, instruction) io" where
  "methods_instruction S myProgram name args accounts =
     rpc (Instruction (programId myProgram) name)
       (\<lambda>n. instruction S n (ProgramCall name args accounts))"

definition createCoinFlipInstruction ::
  "'n services \<Rightarrow> program \<Rightarrow> pubkey \<Rightarrow> bool \<Rightarrow> pubkey \<times> nat \<Rightarrow> keypair \<Rightarrow> pubkey
     \<Rightarrow> ('n, instruction) io" where
  "createCoinFlipInstruction S myProgram rngKpPublicKey userGuess playerStateAccount kp
       escrowAccount =
     methods_instruction S myProgram ''coinFlip'' [ArgKey rngKpPublicKey, ArgBool userGuess]
       [(''playerState'', Derived (fst playerStateAccount) (snd playerStateAccount)),
        (''user'', Key (publicKey kp)),
        (''randomnessAccountData'', Key rngKpPublicKey),
        (''escrowAccount'', Key escrowAccount),
        (''systemProgram'', Key SystemProgram_programId)]"

definition settleFlipInstruction ::
  "'n services \<Rightarrow> program \<Rightarrow> nat \<Rightarrow> pubkey \<times> nat \<Rightarrow> pubkey \<Rightarrow> pubkey \<Rightarrow> keypair
     \<Rightarrow> ('n, instruction) io" where
  "settleFlipInstruction S myProgram escrowBump playerStateAccount rngKpPublicKey
       escrowAccount kp =
     methods_instruction S myProgram ''settleFlip'' [ArgNum escrowBump]
       [(''playerState'', Derived (fst playerStateAccount) (snd playerStateAccount)),
        (''randomnessAccountData'', Key rngKpPublicKey),
        (''escrowAccount'', Key escrowAccount),
        (''user'', Key (publicKey kp)),
        (''systemProgram'', Key SystemProgram_programId)]"

subsection \<open>\<open>initializeGame\<close>\<close>

definition initializeGame ::
  "'n services \<Rightarrow> program \<Rightarrow> pubkey \<times> nat \<Rightarrow> pubkey \<Rightarrow> keypair \<Rightarrow> program
     \<Rightarrow> ('n, unit) io" where
  "initializeGame S myProgram playerStateAccount escrowAccount kp sbProgram =
     await (methods_instruction S myProgram ''initialize'' []
              [(''playerState'', Derived (fst playerStateAccount) (snd playerStateAccount)),
               (''escrowAccount'', Key escrowAccount),
               (''user'', Key (publicKey kp)),
               (''systemProgram'', Key SystemProgram_programId)])
       (\<lambda>initIx.
          let txOpts = \<lparr>commitment = Processed, skipPreflight = True, maxRetries = 0\<rparr>
          in await (handleTransaction sbProgram S [initIx] kp [kp] txOpts)
               (\<lambda>_. return_io ()))"

subsection \<open>\<open>ensureEscrowFunded\<close>\<close>

text \<open>A lamport amount in a template string: its decimal digits (the form JavaScript prints
  for integers below ten to the power 21, which every amount that fits the lamports field is).\<close>

fun number_toString :: "nat \<Rightarrow> string" where
  "number_toString n =
     (if n < 10 then [char_of (48 + n)]
      else number_toString (n div 10) @ [char_of (48 + n mod 10)])"

declare number_toString.simps [simp del]

text \<open>
  JavaScript numbers. The balances the client reads are numbers, that is IEEE 754 doubles,
  holding non-negative integers; such a number is given by the natural number it equals.
  Comparing two of them is exact. Subtracting a smaller one from a larger one gives the
  exact difference rounded to the nearest double, a tie going to the even significand:
  below 9007199254740992 (two to the power 53) every integer is a double, from there on
  the doubles are \<open>double_spacing\<close> apart.
\<close>

fun double_spacing :: "nat \<Rightarrow> nat" where
  "double_spacing n =
     (if n < 9007199254740992 then 1 else 2 * double_spacing (n div 2))"

declare double_spacing.simps [simp del]

definition to_double :: "nat \<Rightarrow> nat" where
  "to_double n =
     (let q = double_spacing n; lo = (n div q) * q; r = n mod q
      in if 2 * r < q then lo
         else if q < 2 * r then lo + q
         else if even (n div q) then lo else lo + q)"

text \<open>\<open>a - b\<close> on numbers with \<open>b \<le> a\<close>.\<close>

definition number_minus :: "nat \<Rightarrow> nat \<Rightarrow> nat" where
  "number_minus a b = to_double (a - b)"

text \<open>
  \<open>SystemProgram.transfer({fromPubkey, toPubkey, lamports})\<close> encodes the lamports as an
  unsigned 64-bit field and throws when they do not fit.
\<close>

definition SystemProgram_transfer :: "pubkey \<Rightarrow> pubkey \<Rightarrow> nat \<Rightarrow> failure + instruction" where
  "SystemProgram_transfer fromPubkey toPubkey lamports =
     (if lamports < 18446744073709551616
      then Inr (SystemTransfer fromPubkey toPubkey lamports)
      else Inl (Thrown ''lamports do not fit an unsigned 64-bit integer''))"

definition ensureEscrowFunded ::
  "'n services \<Rightarrow> pubkey \<Rightarrow> keypair \<Rightarrow> program \<Rightarrow> tx_opts \<Rightarrow> ('n, unit) io" where
  "ensureEscrowFunded S escrowAccount kp sbProgram txOpts =
     await (rpc (GetBalance escrowAccount) (\<lambda>n. getBalance S n escrowAccount))
       (\<lambda>accountBalance.
     await (rpc (GetMinimumBalanceForRentExemption 0)
              (\<lambda>n. getMinimumBalanceForRentExemption S n 0))
       (\<lambda>minRentExemption.
          let requiredBalance = minRentExemption in
          if accountBalance < requiredBalance
          then
            let amountToFund = number_minus requiredBalance accountBalance in
            await (console_log
                     [''Funding account with '' @ number_toString amountToFund
                        @ '' lamports to meet rent exemption threshold.''])
              (\<lambda>_.
            await (throwing (SystemProgram_transfer (publicKey kp) escrowAccount amountToFund))
              (\<lambda>transferIx.
            let params = \<lparr>connection = rpcEndpoint sbProgram, ixs = [transferIx],
                           payer = publicKey kp, signers = [kp], computeUnitPrice = 75000,
                           computeUnitLimitMultiple = 13 / 10\<rparr>
            in
            await (rpc (AsV0Tx params) (\<lambda>n. asV0Tx S n params))
              (\<lambda>transferTx.
            await (rpc (SimulateTransaction transferTx txOpts)
                     (\<lambda>n. simulateTransaction S n transferTx txOpts))
              (\<lambda>sim3.
            await (rpc (SendTransaction transferTx txOpts)
                     (\<lambda>n. sendTransaction S n transferTx txOpts))
              (\<lambda>sig3.
            await (rpc (ConfirmTransaction sig3 COMMITMENT)
                     (\<lambda>n. confirmTransaction S n sig3 COMMITMENT))
              (\<lambda>_. console_log [''  Transaction Signature '', sig3]))))))
          else console_log [''  Escrow account funded already'']))"

section \<open>Observing a run\<close>

text \<open>The result of running a client function from a world, and what the run appended
  to the trace.\<close>

definition result_of :: "('n, 'a) io \<Rightarrow> 'n world \<Rightarrow> failure + 'a" where
  "result_of m w = fst (m w)"

definition events_of :: "('n, 'a) io \<Rightarrow> 'n world \<Rightarrow> event list" where
  "events_of m w = drop (length (trace w)) (trace (snd (m w)))"

definition world_after :: "('n, 'a) io \<Rightarrow> 'n world \<Rightarrow> 'n world" where
  "world_after m w = snd (m w)"

text \<open>The calls to the outside among the events.\<close>

fun calls_of :: "event list \<Rightarrow> call list" where
  "calls_of [] = []"
| "calls_of (Rpc c # es) = c # calls_of es"
| "calls_of (_ # es) = calls_of es"




text \<open>The transactions submitted, and the parameters of the transactions built.\<close>

fun sent :: "call list \<Rightarrow> tx list" where
  "sent [] = []"
| "sent (SendTransaction t _ # cs) = t # sent cs"
| "sent (_ # cs) = sent cs"

fun built :: "call list \<Rightarrow> v0tx_params list" where
  "built [] = []"
| "built (AsV0Tx p # cs) = p # built cs"
| "built (_ # cs) = built cs"

section \<open>A small ledger to run the client on\<close>

text \<open>
  A stand-in for the network and the terminal, for running the client functions on
  concrete inputs: balances per account, the rent-exemption minimum, the instructions
  of the transaction built last, the failure a simulation reports (if any), whether
  the oracle queue is provisioned, and what the user types at the prompt.
\<close>

record ledger =
  balances :: "pubkey \<Rightarrow> nat"
  rentExemptMinimum :: nat
  lastBuilt :: "instruction list"
  simulationErr :: "string option"
  queueProvisioned :: bool
  typed :: string

fun apply_instruction :: "(pubkey \<Rightarrow> nat) \<Rightarrow> instruction \<Rightarrow> (pubkey \<Rightarrow> nat)" where
  "apply_instruction b (SystemTransfer src dst lamports) =
     (let b' = b(src := b src - lamports) in b'(dst := b' dst + lamports))"
| "apply_instruction b (ProgramCall _ _ _) = b"

definition ledger_services :: "string list \<Rightarrow> ledger services" where
  "ledger_services args =
     \<lparr>argv = args,
      question = (\<lambda>n prompt. (typed n, n)),
      asV0Tx = (\<lambda>n p. (Inr ''tx'', n\<lparr>lastBuilt := ixs p\<rparr>)),
      simulateTransaction =
        (\<lambda>n t opts. (Inr \<lparr>sim_err = simulationErr n, sim_logs = []\<rparr>, n)),
      sendTransaction =
        (\<lambda>n t opts.
           (Inr ''sig'', n\<lparr>balances := foldl apply_instruction (balances n) (lastBuilt n)\<rparr>)),
      confirmTransaction = (\<lambda>n s c. (Inr None, n)),
      getBalance = (\<lambda>n k. (Inr (balances n k), n)),
      getMinimumBalanceForRentExemption = (\<lambda>n dataLength. (Inr (rentExemptMinimum n), n)),
      getDefaultQueue = (\<lambda>n endpoint. (Inr \<lparr>pubkey = ''queue''\<rparr>, n)),
      loadData =
        (\<lambda>n q. (if queueProvisioned n then Inr () else Inl (Thrown ''Account not found''), n)),
      instruction = (\<lambda>n i. (Inr i, n))\<rparr>"

definition ledger0 :: ledger where
  "ledger0 =
     \<lparr>balances = (\<lambda>k. if k = ''player'' then 5000000 else 0),
      rentExemptMinimum = 890880,
      lastBuilt = [],
      simulationErr = None,
      queueProvisioned = True,
      typed = ''Heads ''\<rparr>"

definition world0 :: "ledger world" where
  "world0 = \<lparr>outside = ledger0, trace = []\<rparr>"

definition player :: keypair where
  "player = \<lparr>publicKey = ''player'', secretKey = ''secret''\<rparr>"

definition sbProgram0 :: program where
  "sbProgram0 = \<lparr>programId = ''switchboard'', rpcEndpoint = ''https://api.devnet.solana.com''\<rparr>"


definition defaultOpts :: tx_opts where
  "defaultOpts = \<lparr>commitment = Processed, skipPreflight = False, maxRetries = 0\<rparr>"

text \<open>A ledger whose simulations report a failed instruction, one whose oracle queue is
  not provisioned, and services whose simulation call itself throws.\<close>

definition ledger_rejecting :: ledger where
  "ledger_rejecting = ledger0\<lparr>simulationErr := Some ''InstructionError''\<rparr>"

definition ledger_no_queue :: ledger where
  "ledger_no_queue = ledger0\<lparr>queueProvisioned := False\<rparr>"

text \<open>A ledger whose escrow account holds one lamport and whose rent-exemption minimum lies
  above the integers that numbers hold exactly.\<close>

definition ledger_large :: ledger where
  "ledger_large =
     ledger0\<lparr>balances := (\<lambda>k. if k = ''escrow'' then 1 else 0),
             rentExemptMinimum := 9007199254740994\<rparr>"

definition services_simulation_down :: "ledger services" where
  "services_simulation_down =
     (ledger_services [])\<lparr>simulateTransaction :=
        (\<lambda>n t opts. (Inl (Thrown ''failed to simulate transaction''), n))\<rparr>"

text \<open>The world after the escrow account of \<open>ledger0\<close> has been funded, and a coin-flip
  instruction to submit.\<close>

definition world_funded :: "ledger world" where
  "world_funded =
     world_after (ensureEscrowFunded (ledger_services []) ''escrow'' player sbProgram0 defaultOpts)
       world0"

definition flipIx :: instruction where
  "flipIx =
     ProgramCall ''coinFlip'' [ArgKey ''randomness'', ArgBool True]
       [(''playerState'', Derived ''playerState'' 254), (''user'', Key ''player''),
        (''randomnessAccountData'', Key ''randomness''), (''escrowAccount'', Key ''escrow''),
        (''systemProgram'', Key SystemProgram_programId)]"

lemmas io_defs =
  return_io_def await_def try_catch_def rpc_def console_log_def console_error_def
  process_exit_def throwing_def reader_question_def result_of_def events_of_def world_after_def


section \<open>Facts about \<open>handleTransaction\<close>\<close>

lemma handleTransaction_trace:
  "trace (snd (handleTransaction sbProgram S ix kp sgs txOpts w))
     = trace w @ events_of (handleTransaction sbProgram S ix kp sgs txOpts) w"
  unfolding handleTransaction_def io_defs Let_def
  by (simp split: prod.splits sum.splits)

lemma handleTransaction_any_trace:
  "calls_of (events_of (handleTransaction sbProgram S ix kp sgs txOpts) w)
     = calls_of (events_of (handleTransaction sbProgram S ix kp sgs txOpts)
         \<lparr>outside = outside w, trace = []\<rparr>) \<and>
   outside (world_after (handleTransaction sbProgram S ix kp sgs txOpts) w)
     = outside (world_after (handleTransaction sbProgram S ix kp sgs txOpts)
         \<lparr>outside = outside w, trace = []\<rparr>) \<and>
   result_of (handleTransaction sbProgram S ix kp sgs txOpts) w
     = result_of (handleTransaction sbProgram S ix kp sgs txOpts)
         \<lparr>outside = outside w, trace = []\<rparr>"
  unfolding handleTransaction_def io_defs Let_def
  by (simp split: prod.splits sum.splits)

lemma handleTransaction_built:
  "built (calls_of (events_of (handleTransaction sbProgram S ix kp sgs txOpts) w))
     = [\<lparr>connection = rpcEndpoint sbProgram, ixs = ix, payer = publicKey kp, signers = sgs,
         computeUnitPrice = 75000, computeUnitLimitMultiple = 13 / 10\<rparr>]"
  unfolding handleTransaction_def io_defs Let_def
  by (simp split: prod.splits sum.splits)

lemma handleTransaction_sent_once:
  "length (sent (calls_of (events_of (handleTransaction sbProgram S ix kp sgs txOpts) w))) \<le> 1"
  unfolding handleTransaction_def io_defs Let_def
  by (simp split: prod.splits sum.splits)

lemma handleTransaction_simulation_throws:
  assumes "asV0Tx S (outside w)
      \<lparr>connection = rpcEndpoint sbProgram, ixs = ix, payer = publicKey kp, signers = sgs,
        computeUnitPrice = 75000, computeUnitLimitMultiple = 13 / 10\<rparr> = (Inr createTx, n1)"
    and "simulateTransaction S n1 createTx txOpts = (Inl e, n2)"
  shows "result_of (handleTransaction sbProgram S ix kp sgs txOpts) w = Inl e"
    and "sent (calls_of (events_of (handleTransaction sbProgram S ix kp sgs txOpts) w)) = []"
  using assms unfolding handleTransaction_def io_defs Let_def
  by simp_all

lemma handleTransaction_simulation_returns:
  assumes "asV0Tx S (outside w)
      \<lparr>connection = rpcEndpoint sbProgram, ixs = ix, payer = publicKey kp, signers = sgs,
        computeUnitPrice = 75000, computeUnitLimitMultiple = 13 / 10\<rparr> = (Inr createTx, n1)"
    and "simulateTransaction S n1 createTx txOpts = (Inr sim, n2)"
  shows "sent (calls_of (events_of (handleTransaction sbProgram S ix kp sgs txOpts) w))
           = [createTx]"
  using assms unfolding handleTransaction_def io_defs Let_def
  by (simp split: prod.splits sum.splits)




text \<open>Runs on the ledger.\<close>

lemma ledger_build:
  "asV0Tx (ledger_services args) n p = (Inr ''tx'', n\<lparr>lastBuilt := ixs p\<rparr>)"
  by (simp add: ledger_services_def)

lemma ledger_simulate:
  "simulateTransaction (ledger_services args) n t opts
     = (Inr \<lparr>sim_err = simulationErr n, sim_logs = []\<rparr>, n)"
  by (simp add: ledger_services_def)

lemma handleTransaction_on_ledger:
  "result_of (handleTransaction sbProgram0 (ledger_services []) [flipIx] player [player]
       defaultOpts) \<lparr>outside = n, trace = []\<rparr> = Inr ''sig''"
  "calls_of (events_of (handleTransaction sbProgram0 (ledger_services []) [flipIx] player [player]
       defaultOpts) \<lparr>outside = n, trace = []\<rparr>)
     = [AsV0Tx \<lparr>connection = rpcEndpoint sbProgram0, ixs = [flipIx], payer = publicKey player,
                signers = [player], computeUnitPrice = 75000,
                computeUnitLimitMultiple = 13 / 10\<rparr>,
        SimulateTransaction ''tx'' defaultOpts, SendTransaction ''tx'' defaultOpts,
        ConfirmTransaction ''sig'' Confirmed]"
  by (simp_all add: handleTransaction_def io_defs Let_def COMMITMENT_def ledger_services_def)

section \<open>The transaction protocol\<close>

text \<open>
  C1 (as amended). When the \<open>simulateTransaction\<close> call itself throws, \<open>handleTransaction\<close>
  fails with that very error and never calls \<open>sendTransaction\<close>. When the call returns a
  response, whatever its \<open>err\<close> field says, the response is not inspected and the built
  transaction is submitted.
\<close>

theorem handleTransaction_simulation_throw_aborts:
  "asV0Tx S (outside w)
      \<lparr>connection = rpcEndpoint sbProgram, ixs = ix, payer = publicKey kp, signers = sgs,
        computeUnitPrice = 75000, computeUnitLimitMultiple = 13 / 10\<rparr> = (Inr createTx, n1)
   \<Longrightarrow>
   (\<forall>e n2. simulateTransaction S n1 createTx txOpts = (Inl e, n2) \<longrightarrow>
      result_of (handleTransaction sbProgram S ix kp sgs txOpts) w = Inl e \<and>
      sent (calls_of (events_of (handleTransaction sbProgram S ix kp sgs txOpts) w)) = []) \<and>
   (\<forall>sim n2. simulateTransaction S n1 createTx txOpts = (Inr sim, n2) \<longrightarrow>
      sent (calls_of (events_of (handleTransaction sbProgram S ix kp sgs txOpts) w))
        = [createTx])"
  by (intro conjI allI impI)
    (simp_all add: handleTransaction_simulation_throws handleTransaction_simulation_returns)

theorem handleTransaction_simulation_throw_aborts_witness:
  "simulateTransaction services_simulation_down (ledger0\<lparr>lastBuilt := [flipIx]\<rparr>) ''tx'' defaultOpts
     = (Inl (Thrown ''failed to simulate transaction''), ledger0\<lparr>lastBuilt := [flipIx]\<rparr>) \<and>
   result_of (handleTransaction sbProgram0 services_simulation_down [flipIx] player [player]
       defaultOpts) world0 = Inl (Thrown ''failed to simulate transaction'') \<and>
   sent (calls_of (events_of (handleTransaction sbProgram0 services_simulation_down [flipIx] player
       [player] defaultOpts) world0)) = [] \<and>
   simulateTransaction (ledger_services []) (ledger_rejecting\<lparr>lastBuilt := [flipIx]\<rparr>) ''tx''
       defaultOpts
     = (Inr \<lparr>sim_err = Some ''InstructionError'', sim_logs = []\<rparr>,
        ledger_rejecting\<lparr>lastBuilt := [flipIx]\<rparr>) \<and>
   sent (calls_of (events_of (handleTransaction sbProgram0 (ledger_services []) [flipIx] player
       [player] defaultOpts) \<lparr>outside = ledger_rejecting, trace = []\<rparr>)) = [''tx'']"
proof -
  have b1: "asV0Tx services_simulation_down (outside world0)
      \<lparr>connection = rpcEndpoint sbProgram0, ixs = [flipIx], payer = publicKey player,
        signers = [player], computeUnitPrice = 75000, computeUnitLimitMultiple = 13 / 10\<rparr>
      = (Inr ''tx'', ledger0\<lparr>lastBuilt := [flipIx]\<rparr>)"
    by (simp add: services_simulation_down_def ledger_services_def world0_def)
  have s1: "simulateTransaction services_simulation_down (ledger0\<lparr>lastBuilt := [flipIx]\<rparr>) ''tx''
      defaultOpts
      = (Inl (Thrown ''failed to simulate transaction''), ledger0\<lparr>lastBuilt := [flipIx]\<rparr>)"
    by (simp add: services_simulation_down_def ledger_services_def)
  have b2: "asV0Tx (ledger_services []) (outside \<lparr>outside = ledger_rejecting, trace = []\<rparr>)
      \<lparr>connection = rpcEndpoint sbProgram0, ixs = [flipIx], payer = publicKey player,
        signers = [player], computeUnitPrice = 75000, computeUnitLimitMultiple = 13 / 10\<rparr>
      = (Inr ''tx'', ledger_rejecting\<lparr>lastBuilt := [flipIx]\<rparr>)"
    by (simp add: ledger_build)
  have s2: "simulateTransaction (ledger_services []) (ledger_rejecting\<lparr>lastBuilt := [flipIx]\<rparr>)
      ''tx'' defaultOpts
      = (Inr \<lparr>sim_err = Some ''InstructionError'', sim_logs = []\<rparr>,
         ledger_rejecting\<lparr>lastBuilt := [flipIx]\<rparr>)"
    by (simp add: ledger_simulate ledger_rejecting_def ledger0_def)
  from handleTransaction_simulation_throw_aborts [OF b1, where txOpts = defaultOpts] s1
  have t1: "result_of (handleTransaction sbProgram0 services_simulation_down [flipIx] player
       [player] defaultOpts) world0 = Inl (Thrown ''failed to simulate transaction'') \<and>
     sent (calls_of (events_of (handleTransaction sbProgram0 services_simulation_down [flipIx]
       player [player] defaultOpts) world0)) = []"
    by blast
  from handleTransaction_simulation_throw_aborts [OF b2, where txOpts = defaultOpts] s2
  have t2: "sent (calls_of (events_of (handleTransaction sbProgram0 (ledger_services []) [flipIx]
       player [player] defaultOpts) \<lparr>outside = ledger_rejecting, trace = []\<rparr>)) = [''tx'']"
    by blast
  from s1 t1 s2 t2 show ?thesis by simp
qed

text \<open>
  C1, the claim as stated, fails: on a ledger whose simulation reports the failure
  \<open>InstructionError\<close>, \<open>handleTransaction\<close> goes on to \<open>sendTransaction\<close> and returns the
  signature.
\<close>

theorem handleTransaction_sends_after_failed_simulation:
  "simulateTransaction (ledger_services []) (ledger_rejecting\<lparr>lastBuilt := [flipIx]\<rparr>) ''tx''
       defaultOpts
     = (Inr \<lparr>sim_err = Some ''InstructionError'', sim_logs = []\<rparr>,
        ledger_rejecting\<lparr>lastBuilt := [flipIx]\<rparr>) \<and>
   result_of (handleTransaction sbProgram0 (ledger_services []) [flipIx] player [player]
       defaultOpts) \<lparr>outside = ledger_rejecting, trace = []\<rparr> = Inr ''sig'' \<and>
   calls_of (events_of (handleTransaction sbProgram0 (ledger_services []) [flipIx] player [player]
       defaultOpts) \<lparr>outside = ledger_rejecting, trace = []\<rparr>)
     = [AsV0Tx \<lparr>connection = rpcEndpoint sbProgram0, ixs = [flipIx], payer = publicKey player,
                signers = [player], computeUnitPrice = 75000,
                computeUnitLimitMultiple = 13 / 10\<rparr>,
        SimulateTransaction ''tx'' defaultOpts, SendTransaction ''tx'' defaultOpts,
        ConfirmTransaction ''sig'' Confirmed]"
  by (simp add: handleTransaction_on_ledger ledger_simulate ledger_rejecting_def ledger0_def)



section \<open>Confirmation level\<close>

lemma initializeGame_calls:
  "calls_of (events_of
      (initializeGame S myProgram playerStateAccount escrowAccount kp sbProgram) w)
     = [Instruction (programId myProgram) ''initialize''] \<or>
   (\<exists>initIx w1.
      calls_of (events_of
        (initializeGame S myProgram playerStateAccount escrowAccount kp sbProgram) w)
      = Instruction (programId myProgram) ''initialize''
          # calls_of (events_of
               (handleTransaction sbProgram S [initIx] kp [kp]
                  \<lparr>commitment = Processed, skipPreflight = True, maxRetries = 0\<rparr>) w1))"
proof (cases "instruction S (outside w)
                (ProgramCall ''initialize'' []
                   [(''playerState'', Derived (fst playerStateAccount) (snd playerStateAccount)),
                    (''escrowAccount'', Key escrowAccount),
                    (''user'', Key (publicKey kp)),
                    (''systemProgram'', Key SystemProgram_programId)])")
  case (Pair r n1)
  show ?thesis
  proof (cases r)
    case (Inl e)
    with Pair show ?thesis
      by (simp add: initializeGame_def methods_instruction_def await_def rpc_def events_of_def)
  next
    case (Inr initIx)
    define w1 where "w1 = w\<lparr>outside := n1,
        trace := trace w @ [Rpc (Instruction (programId myProgram) ''initialize'')]\<rparr>"
    have "trace (snd (initializeGame S myProgram playerStateAccount escrowAccount kp sbProgram w))
          = trace (snd (handleTransaction sbProgram S [initIx] kp [kp]
                  \<lparr>commitment = Processed, skipPreflight = True, maxRetries = 0\<rparr> w1))"
      using Pair Inr
      by (simp add: initializeGame_def methods_instruction_def await_def rpc_def return_io_def
            w1_def Let_def split: prod.splits sum.splits)
    then have "events_of
        (initializeGame S myProgram playerStateAccount escrowAccount kp sbProgram) w
      = Rpc (Instruction (programId myProgram) ''initialize'')
          # events_of (handleTransaction sbProgram S [initIx] kp [kp]
                  \<lparr>commitment = Processed, skipPreflight = True, maxRetries = 0\<rparr>) w1"
      by (simp add: events_of_def [of "initializeGame _ _ _ _ _ _"] handleTransaction_trace w1_def)
    then show ?thesis by auto
  qed
qed





section \<open>The oracle queue\<close>

text \<open>
  C8. Once the default queue account is found, \<open>setupQueue\<close> loads it exactly once. If
  loading throws, the run prints the diagnostic on the error console and ends the process
  with exit code 1, neither returning nor loading again; if loading succeeds, the run
  returns the public key of the queue.
\<close>

theorem setupQueue_exits_when_queue_missing:
  assumes "getDefaultQueue S (outside w) (rpcEndpoint prog) = (Inr queueAccount, n1)"
  shows "(\<forall>e n2. loadData S n1 queueAccount = (Inl (Thrown e), n2) \<longrightarrow>
            result_of (setupQueue S prog) w = Inl (ProcessExit 1) \<and>
            events_of (setupQueue S prog) w
              = [Rpc (GetDefaultQueue (rpcEndpoint prog)),
                 ConsoleLog [''Queue account'', pubkey queueAccount],
                 Rpc (LoadData (pubkey queueAccount)),
                 ConsoleError [''Queue not found, ensure you are using devnet in your env'']]) \<and>
         (\<forall>n2. loadData S n1 queueAccount = (Inr (), n2) \<longrightarrow>
            result_of (setupQueue S prog) w = Inr (pubkey queueAccount) \<and>
            events_of (setupQueue S prog) w
              = [Rpc (GetDefaultQueue (rpcEndpoint prog)),
                 ConsoleLog [''Queue account'', pubkey queueAccount],
                 Rpc (LoadData (pubkey queueAccount))])"
  using assms unfolding setupQueue_def io_defs Let_def
  by (auto split: prod.splits sum.splits failure.splits)

theorem setupQueue_exits_when_queue_missing_witness:
  "loadData (ledger_services []) ledger_no_queue \<lparr>pubkey = ''queue''\<rparr>
     = (Inl (Thrown ''Account not found''), ledger_no_queue) \<and>
   result_of (setupQueue (ledger_services []) sbProgram0) \<lparr>outside = ledger_no_queue, trace = []\<rparr>
     = Inl (ProcessExit 1) \<and>
   loadData (ledger_services []) ledger0 \<lparr>pubkey = ''queue''\<rparr> = (Inr (), ledger0) \<and>
   result_of (setupQueue (ledger_services []) sbProgram0) world0 = Inr ''queue''"
proof -
  have q1: "getDefaultQueue (ledger_services [])
              (outside \<lparr>outside = ledger_no_queue, trace = []\<rparr>) (rpcEndpoint sbProgram0)
            = (Inr \<lparr>pubkey = ''queue''\<rparr>, ledger_no_queue)"
    by (simp add: ledger_services_def)
  have l1: "loadData (ledger_services []) ledger_no_queue \<lparr>pubkey = ''queue''\<rparr>
            = (Inl (Thrown ''Account not found''), ledger_no_queue)"
    by (simp add: ledger_services_def ledger_no_queue_def ledger0_def)
  have q2: "getDefaultQueue (ledger_services []) (outside world0) (rpcEndpoint sbProgram0)
            = (Inr \<lparr>pubkey = ''queue''\<rparr>, ledger0)"
    by (simp add: ledger_services_def world0_def)
  have l2: "loadData (ledger_services []) ledger0 \<lparr>pubkey = ''queue''\<rparr> = (Inr (), ledger0)"
    by (simp add: ledger_services_def ledger0_def)
  from setupQueue_exits_when_queue_missing [OF q1] l1
  have a: "result_of (setupQueue (ledger_services []) sbProgram0)
             \<lparr>outside = ledger_no_queue, trace = []\<rparr> = Inl (ProcessExit 1)"
    by blast
  from setupQueue_exits_when_queue_missing [OF q2] l2
  have b: "result_of (setupQueue (ledger_services []) sbProgram0) world0 = Inr ''queue''"
    by fastforce
  from a b l1 l2 show ?thesis by simp
qed

section \<open>Funding the escrow account\<close>

lemma to_double_exact: "n < 9007199254740992 \<Longrightarrow> to_double n = n"
  by (simp add: to_double_def double_spacing.simps [of n])

lemma number_minus_exact:
  "b < t \<Longrightarrow> t \<le> 9007199254740991 \<Longrightarrow> number_minus t b = t - b"
  by (simp add: number_minus_def to_double_exact)

lemma number_minus_rounds: "number_minus 9007199254740994 1 = 9007199254740992"
  by (simp add: number_minus_def to_double_def double_spacing.simps)

lemma ensureEscrowFunded_funding_branch:
  assumes "getBalance S (outside w) escrowAccount = (Inr accountBalance, n1)"
    and "getMinimumBalanceForRentExemption S n1 0 = (Inr minRentExemption, n2)"
    and "accountBalance < minRentExemption"
    and "number_minus minRentExemption accountBalance < 18446744073709551616"
  shows "calls_of (events_of (ensureEscrowFunded S escrowAccount kp sbProgram txOpts) w)
           = [GetBalance escrowAccount, GetMinimumBalanceForRentExemption 0]
             @ calls_of (events_of
                 (handleTransaction sbProgram S
                    [SystemTransfer (publicKey kp) escrowAccount
                       (number_minus minRentExemption accountBalance)] kp [kp] txOpts)
                 \<lparr>outside = n2, trace = []\<rparr>) \<and>
         outside (world_after (ensureEscrowFunded S escrowAccount kp sbProgram txOpts) w)
           = outside (world_after
                 (handleTransaction sbProgram S
                    [SystemTransfer (publicKey kp) escrowAccount
                       (number_minus minRentExemption accountBalance)] kp [kp] txOpts)
                 \<lparr>outside = n2, trace = []\<rparr>) \<and>
         result_of (ensureEscrowFunded S escrowAccount kp sbProgram txOpts) w
           = map_sum id (\<lambda>_. ())
               (result_of
                 (handleTransaction sbProgram S
                    [SystemTransfer (publicKey kp) escrowAccount
                       (number_minus minRentExemption accountBalance)] kp [kp] txOpts)
                 \<lparr>outside = n2, trace = []\<rparr>)"
  using assms
  unfolding ensureEscrowFunded_def handleTransaction_def SystemProgram_transfer_def io_defs
    Let_def
  by (simp split: prod.splits sum.splits)

lemma ensureEscrowFunded_no_build:
  assumes "getBalance S (outside w) escrowAccount = (Inl e, n1) \<or>
           (\<exists>b e n2. getBalance S (outside w) escrowAccount = (Inr b, n1) \<and>
              getMinimumBalanceForRentExemption S n1 0 = (Inl e, n2)) \<or>
           (\<exists>b t n2. getBalance S (outside w) escrowAccount = (Inr b, n1) \<and>
              getMinimumBalanceForRentExemption S n1 0 = (Inr t, n2) \<and>
              (t \<le> b \<or> 18446744073709551616 \<le> number_minus t b))"
  shows "built (calls_of (events_of (ensureEscrowFunded S escrowAccount kp sbProgram txOpts) w)) = []"
  using assms unfolding ensureEscrowFunded_def SystemProgram_transfer_def io_defs Let_def
  by auto

lemma ensureEscrowFunded_built_budget:
  assumes "p \<in> set (built (calls_of (events_of
              (ensureEscrowFunded S escrowAccount kp sbProgram txOpts) w)))"
  shows "computeUnitPrice p = 75000 \<and> computeUnitLimitMultiple p = 13 / 10"
proof -
  obtain r1 n1 where g: "getBalance S (outside w) escrowAccount = (r1, n1)"
    by (cases "getBalance S (outside w) escrowAccount")
  obtain r2 n2 where m: "getMinimumBalanceForRentExemption S n1 0 = (r2, n2)"
    by (cases "getMinimumBalanceForRentExemption S n1 0")
  show ?thesis
  proof (cases r1)
    case (Inl e)
    with g assms show ?thesis by (simp add: ensureEscrowFunded_no_build)
  next
    case b: (Inr accountBalance)
    show ?thesis
    proof (cases r2)
      case (Inl e)
      with g m b have "built (calls_of (events_of
              (ensureEscrowFunded S escrowAccount kp sbProgram txOpts) w)) = []"
        by (intro ensureEscrowFunded_no_build) auto
      with assms show ?thesis by simp
    next
      case t: (Inr minRentExemption)
      show ?thesis
      proof (cases "accountBalance < minRentExemption \<and>
                    number_minus minRentExemption accountBalance < 18446744073709551616")
        case True
        then have lt: "accountBalance < minRentExemption"
          and enc: "number_minus minRentExemption accountBalance < 18446744073709551616"
          by simp_all
        from ensureEscrowFunded_funding_branch [OF g [unfolded b] m [unfolded t] lt enc] assms
        show ?thesis by (simp add: handleTransaction_built)
      next
        case False
        with g m b t have "built (calls_of (events_of
              (ensureEscrowFunded S escrowAccount kp sbProgram txOpts) w)) = []"
          by (intro ensureEscrowFunded_no_build) auto
        with assms show ?thesis by simp
      qed
    qed
  qed
qed

lemma ledger_reads:
  "getBalance (ledger_services args) n k = (Inr (balances n k), n)"
  "getMinimumBalanceForRentExemption (ledger_services args) n dataLength
     = (Inr (rentExemptMinimum n), n)"
  by (simp_all add: ledger_services_def)

lemma funding_on_ledger:
  "result_of (handleTransaction sbProgram0 (ledger_services [])
       [SystemTransfer (publicKey player) ''escrow'' 890880] player [player] defaultOpts)
       \<lparr>outside = ledger0, trace = []\<rparr> = Inr ''sig''"
  "balances (outside (world_after (handleTransaction sbProgram0 (ledger_services [])
       [SystemTransfer (publicKey player) ''escrow'' 890880] player [player] defaultOpts)
       \<lparr>outside = ledger0, trace = []\<rparr>)) ''escrow'' = 890880"
  "rentExemptMinimum (outside (world_after (handleTransaction sbProgram0 (ledger_services [])
       [SystemTransfer (publicKey player) ''escrow'' 890880] player [player] defaultOpts)
       \<lparr>outside = ledger0, trace = []\<rparr>)) = 890880"
  by (simp_all add: handleTransaction_def io_defs Let_def ledger_services_def ledger0_def
        player_def)

lemma world_funded_reads:
  "getBalance (ledger_services []) (outside world_funded) ''escrow''
     = (Inr 890880, outside world_funded)"
  "getMinimumBalanceForRentExemption (ledger_services []) (outside world_funded) 0
     = (Inr 890880, outside world_funded)"
proof -
  have g: "getBalance (ledger_services []) (outside world0) ''escrow'' = (Inr 0, ledger0)"
    by (simp add: ledger_reads world0_def ledger0_def)
  have m: "getMinimumBalanceForRentExemption (ledger_services []) ledger0 0
           = (Inr 890880, ledger0)"
    by (simp add: ledger_reads ledger0_def)
  have lt: "(0::nat) < 890880" by simp
  have am: "number_minus 890880 0 = 890880"
    by (simp add: number_minus_exact)
  have enc: "number_minus 890880 0 < 18446744073709551616"
    by (simp add: am)
  from ensureEscrowFunded_funding_branch [OF g m lt enc, of player sbProgram0 defaultOpts]
  have "outside world_funded
     = outside (world_after (handleTransaction sbProgram0 (ledger_services [])
            [SystemTransfer (publicKey player) ''escrow'' 890880] player [player] defaultOpts)
            \<lparr>outside = ledger0, trace = []\<rparr>)"
    by (simp add: world_funded_def am)
  then show
    "getBalance (ledger_services []) (outside world_funded) ''escrow''
       = (Inr 890880, outside world_funded)"
    "getMinimumBalanceForRentExemption (ledger_services []) (outside world_funded) 0
       = (Inr 890880, outside world_funded)"
    by (simp_all add: ledger_reads funding_on_ledger)
qed

text \<open>
  C4 (as amended). When the balance read is strictly below the rent-exemption minimum read
  for data length 0, and the minimum is at most 9007199254740991, the largest integer up to
  which the subtraction of numbers is exact, \<open>ensureEscrowFunded\<close> builds exactly one
  transaction, whose only instruction transfers exactly the shortfall from the funding
  keypair to the escrow account, so that the balance read plus the lamports moved is the
  minimum. It submits at most one transaction, and exactly that one once building and
  simulating return. After the two reads it makes the calls of \<open>handleTransaction\<close> on that
  single transfer, with the same effect on the outside and the same outcome.
\<close>

theorem ensureEscrowFunded_transfers_shortfall:
  assumes "getBalance S (outside w) escrowAccount = (Inr accountBalance, n1)"
    and "getMinimumBalanceForRentExemption S n1 0 = (Inr minRentExemption, n2)"
    and "accountBalance < minRentExemption"
    and "minRentExemption \<le> 9007199254740991"
    and "transferIx
           = SystemTransfer (publicKey kp) escrowAccount (minRentExemption - accountBalance)"
    and "params = \<lparr>connection = rpcEndpoint sbProgram, ixs = [transferIx], payer = publicKey kp,
                    signers = [kp], computeUnitPrice = 75000,
                    computeUnitLimitMultiple = 13 / 10\<rparr>"
  shows "built (calls_of (events_of (ensureEscrowFunded S escrowAccount kp sbProgram txOpts) w))
           = [params] \<and>
         accountBalance + (minRentExemption - accountBalance) = minRentExemption \<and>
         length (sent (calls_of (events_of
           (ensureEscrowFunded S escrowAccount kp sbProgram txOpts) w))) \<le> 1 \<and>
         (\<forall>transferTx n3 sim3 n4.
            asV0Tx S n2 params = (Inr transferTx, n3) \<and>
            simulateTransaction S n3 transferTx txOpts = (Inr sim3, n4) \<longrightarrow>
            sent (calls_of (events_of (ensureEscrowFunded S escrowAccount kp sbProgram txOpts) w))
              = [transferTx]) \<and>
         calls_of (events_of (ensureEscrowFunded S escrowAccount kp sbProgram txOpts) w)
           = [GetBalance escrowAccount, GetMinimumBalanceForRentExemption 0]
             @ calls_of (events_of (handleTransaction sbProgram S [transferIx] kp [kp] txOpts)
                           \<lparr>outside = n2, trace = []\<rparr>) \<and>
         outside (world_after (ensureEscrowFunded S escrowAccount kp sbProgram txOpts) w)
           = outside (world_after (handleTransaction sbProgram S [transferIx] kp [kp] txOpts)
                        \<lparr>outside = n2, trace = []\<rparr>) \<and>
         result_of (ensureEscrowFunded S escrowAccount kp sbProgram txOpts) w
           = map_sum id (\<lambda>_. ())
               (result_of (handleTransaction sbProgram S [transferIx] kp [kp] txOpts)
                  \<lparr>outside = n2, trace = []\<rparr>)"
proof -
  have am: "number_minus minRentExemption accountBalance = minRentExemption - accountBalance"
    using assms(3,4) by (rule number_minus_exact)
  have enc: "number_minus minRentExemption accountBalance < 18446744073709551616"
    using assms(3,4) by (simp add: am)
  note fb = ensureEscrowFunded_funding_branch
              [OF assms(1-3) enc, of kp sbProgram txOpts, unfolded am, folded assms(5)]
  have c: "calls_of (events_of (ensureEscrowFunded S escrowAccount kp sbProgram txOpts) w)
           = [GetBalance escrowAccount, GetMinimumBalanceForRentExemption 0]
             @ calls_of (events_of (handleTransaction sbProgram S [transferIx] kp [kp] txOpts)
                           \<lparr>outside = n2, trace = []\<rparr>)"
    using fb by blast
  have b: "built (calls_of (events_of (ensureEscrowFunded S escrowAccount kp sbProgram txOpts) w))
           = [params]"
    by (simp add: c handleTransaction_built assms(6))
  have s: "sent (calls_of (events_of (ensureEscrowFunded S escrowAccount kp sbProgram txOpts) w))
           = sent (calls_of (events_of (handleTransaction sbProgram S [transferIx] kp [kp] txOpts)
                           \<lparr>outside = n2, trace = []\<rparr>))"
    by (simp add: c)
  have l: "length (sent (calls_of (events_of
           (ensureEscrowFunded S escrowAccount kp sbProgram txOpts) w))) \<le> 1"
    using handleTransaction_sent_once
            [of sbProgram S "[transferIx]" kp "[kp]" txOpts "\<lparr>outside = n2, trace = []\<rparr>"]
    by (simp only: s)
  have e: "\<forall>transferTx n3 sim3 n4.
            asV0Tx S n2 params = (Inr transferTx, n3) \<and>
            simulateTransaction S n3 transferTx txOpts = (Inr sim3, n4) \<longrightarrow>
            sent (calls_of (events_of (ensureEscrowFunded S escrowAccount kp sbProgram txOpts) w))
              = [transferTx]"
  proof (intro allI impI)
    fix transferTx n3 sim3 n4
    assume h: "asV0Tx S n2 params = (Inr transferTx, n3) \<and>
               simulateTransaction S n3 transferTx txOpts = (Inr sim3, n4)"
    then have "asV0Tx S (outside \<lparr>outside = n2, trace = []\<rparr>)
        \<lparr>connection = rpcEndpoint sbProgram, ixs = [transferIx], payer = publicKey kp,
          signers = [kp], computeUnitPrice = 75000, computeUnitLimitMultiple = 13 / 10\<rparr>
        = (Inr transferTx, n3)"
      by (simp add: assms(6))
    from handleTransaction_simulation_returns [OF this] h
    show "sent (calls_of (events_of (ensureEscrowFunded S escrowAccount kp sbProgram txOpts) w))
              = [transferTx]"
      by (simp add: s)
  qed
  have a: "accountBalance + (minRentExemption - accountBalance) = minRentExemption"
    using assms(3) by simp
  from b a l e fb show ?thesis by blast
qed

theorem ensureEscrowFunded_transfers_shortfall_witness:
  "getBalance (ledger_services []) (outside world0) ''escrow'' = (Inr 0, ledger0) \<and>
   getMinimumBalanceForRentExemption (ledger_services []) ledger0 0 = (Inr 890880, ledger0) \<and>
   built (calls_of (events_of
      (ensureEscrowFunded (ledger_services []) ''escrow'' player sbProgram0 defaultOpts) world0))
     = [\<lparr>connection = rpcEndpoint sbProgram0,
         ixs = [SystemTransfer (publicKey player) ''escrow'' 890880], payer = publicKey player,
         signers = [player], computeUnitPrice = 75000, computeUnitLimitMultiple = 13 / 10\<rparr>] \<and>
   sent (calls_of (events_of
      (ensureEscrowFunded (ledger_services []) ''escrow'' player sbProgram0 defaultOpts) world0))
     = [''tx''] \<and>
   result_of (ensureEscrowFunded (ledger_services []) ''escrow'' player sbProgram0 defaultOpts)
      world0 = Inr () \<and>
   balances (outside (world_after
      (ensureEscrowFunded (ledger_services []) ''escrow'' player sbProgram0 defaultOpts) world0))
      ''escrow'' = 890880"
proof -
  have g: "getBalance (ledger_services []) (outside world0) ''escrow'' = (Inr 0, ledger0)"
    by (simp add: ledger_reads world0_def ledger0_def)
  have m: "getMinimumBalanceForRentExemption (ledger_services []) ledger0 0
           = (Inr 890880, ledger0)"
    by (simp add: ledger_reads ledger0_def)
  have lt: "(0::nat) < 890880" by simp
  have safe: "(890880::nat) \<le> 9007199254740991" by simp
  have ix: "SystemTransfer (publicKey player) ''escrow'' 890880
            = SystemTransfer (publicKey player) ''escrow'' (890880 - 0)"
    by simp
  note t = ensureEscrowFunded_transfers_shortfall
             [OF g m lt safe ix refl, of sbProgram0 defaultOpts]
  have bd: "asV0Tx (ledger_services []) ledger0
        \<lparr>connection = rpcEndpoint sbProgram0,
          ixs = [SystemTransfer (publicKey player) ''escrow'' 890880], payer = publicKey player,
          signers = [player], computeUnitPrice = 75000, computeUnitLimitMultiple = 13 / 10\<rparr>
        = (Inr ''tx'', ledger0\<lparr>lastBuilt := [SystemTransfer (publicKey player) ''escrow'' 890880]\<rparr>)"
    by (simp add: ledger_build)
  have sm: "simulateTransaction (ledger_services [])
        (ledger0\<lparr>lastBuilt := [SystemTransfer (publicKey player) ''escrow'' 890880]\<rparr>) ''tx'' defaultOpts
        = (Inr \<lparr>sim_err = None, sim_logs = []\<rparr>,
           ledger0\<lparr>lastBuilt := [SystemTransfer (publicKey player) ''escrow'' 890880]\<rparr>)"
    by (simp add: ledger_simulate ledger0_def)
  from t bd sm have st: "sent (calls_of (events_of
      (ensureEscrowFunded (ledger_services []) ''escrow'' player sbProgram0 defaultOpts) world0))
     = [''tx'']"
    by blast
  from t have b: "built (calls_of (events_of
      (ensureEscrowFunded (ledger_services []) ''escrow'' player sbProgram0 defaultOpts) world0))
     = [\<lparr>connection = rpcEndpoint sbProgram0,
         ixs = [SystemTransfer (publicKey player) ''escrow'' 890880], payer = publicKey player,
         signers = [player], computeUnitPrice = 75000, computeUnitLimitMultiple = 13 / 10\<rparr>]"
    by blast
  from t have "result_of
      (ensureEscrowFunded (ledger_services []) ''escrow'' player sbProgram0 defaultOpts) world0
     = map_sum id (\<lambda>_. ())
         (result_of (handleTransaction sbProgram0 (ledger_services [])
            [SystemTransfer (publicKey player) ''escrow'' 890880] player [player] defaultOpts)
            \<lparr>outside = ledger0, trace = []\<rparr>)"
    by blast
  then have r: "result_of
      (ensureEscrowFunded (ledger_services []) ''escrow'' player sbProgram0 defaultOpts) world0
     = Inr ()"
    by (simp add: funding_on_ledger)
  from t have "outside (world_after
      (ensureEscrowFunded (ledger_services []) ''escrow'' player sbProgram0 defaultOpts) world0)
     = outside (world_after (handleTransaction sbProgram0 (ledger_services [])
            [SystemTransfer (publicKey player) ''escrow'' 890880] player [player] defaultOpts)
            \<lparr>outside = ledger0, trace = []\<rparr>)"
    by blast
  then have o: "balances (outside (world_after
      (ensureEscrowFunded (ledger_services []) ''escrow'' player sbProgram0 defaultOpts) world0))
      ''escrow'' = 890880"
    by (simp add: funding_on_ledger)
  show ?thesis by (intro conjI g m b st r o)
qed

text \<open>
  C4, the claim as stated, fails: with balance 1 and minimum 9007199254740994 the shortfall
  is 9007199254740993, which is no number; the subtraction gives 9007199254740992, and that
  is what the one transfer built moves.
\<close>

theorem ensureEscrowFunded_rounds_large_shortfall:
  "getBalance (ledger_services []) ledger_large ''escrow'' = (Inr 1, ledger_large) \<and>
   getMinimumBalanceForRentExemption (ledger_services []) ledger_large 0
     = (Inr 9007199254740994, ledger_large) \<and>
   (9007199254740994 :: nat) - 1 = 9007199254740993 \<and>
   built (calls_of (events_of
      (ensureEscrowFunded (ledger_services []) ''escrow'' player sbProgram0 defaultOpts)
      \<lparr>outside = ledger_large, trace = []\<rparr>))
     = [\<lparr>connection = rpcEndpoint sbProgram0,
         ixs = [SystemTransfer (publicKey player) ''escrow'' 9007199254740992],
         payer = publicKey player, signers = [player], computeUnitPrice = 75000,
         computeUnitLimitMultiple = 13 / 10\<rparr>]"
proof -
  have g: "getBalance (ledger_services []) (outside \<lparr>outside = ledger_large, trace = []\<rparr>)
             ''escrow'' = (Inr 1, ledger_large)"
    by (simp add: ledger_reads ledger_large_def ledger0_def)
  have m: "getMinimumBalanceForRentExemption (ledger_services []) ledger_large 0
           = (Inr 9007199254740994, ledger_large)"
    by (simp add: ledger_reads ledger_large_def ledger0_def)
  have lt: "(1::nat) < 9007199254740994" by simp
  have enc: "number_minus 9007199254740994 1 < 18446744073709551616"
    unfolding number_minus_rounds by simp
  from ensureEscrowFunded_funding_branch
         [OF g m lt enc, of player sbProgram0 defaultOpts, unfolded number_minus_rounds]
  have b: "built (calls_of (events_of
      (ensureEscrowFunded (ledger_services []) ''escrow'' player sbProgram0 defaultOpts)
      \<lparr>outside = ledger_large, trace = []\<rparr>))
     = [\<lparr>connection = rpcEndpoint sbProgram0,
         ixs = [SystemTransfer (publicKey player) ''escrow'' 9007199254740992],
         payer = publicKey player, signers = [player], computeUnitPrice = 75000,
         computeUnitLimitMultiple = 13 / 10\<rparr>]"
    by (simp add: handleTransaction_built)
  from g m b show ?thesis by simp
qed

text \<open>
  C5. When the balance read is at or above the rent-exemption minimum, \<open>ensureEscrowFunded\<close>
  returns after the two reads and one log line: it builds and submits nothing, and leaves
  the outside as the reads left it. So a call that follows a funding call which brought the
  balance up to the minimum transfers nothing.
\<close>

theorem ensureEscrowFunded_noop_when_funded:
  assumes "getBalance S (outside w) escrowAccount = (Inr accountBalance, n1)"
    and "getMinimumBalanceForRentExemption S n1 0 = (Inr minRentExemption, n2)"
    and "minRentExemption \<le> accountBalance"
  shows "result_of (ensureEscrowFunded S escrowAccount kp sbProgram txOpts) w = Inr () \<and>
         events_of (ensureEscrowFunded S escrowAccount kp sbProgram txOpts) w
           = [Rpc (GetBalance escrowAccount), Rpc (GetMinimumBalanceForRentExemption 0),
              ConsoleLog [''  Escrow account funded already'']] \<and>
         built (calls_of (events_of (ensureEscrowFunded S escrowAccount kp sbProgram txOpts) w))
           = [] \<and>
         sent (calls_of (events_of (ensureEscrowFunded S escrowAccount kp sbProgram txOpts) w))
           = [] \<and>
         outside (world_after (ensureEscrowFunded S escrowAccount kp sbProgram txOpts) w) = n2"
  using assms unfolding ensureEscrowFunded_def io_defs Let_def
  by simp

theorem ensureEscrowFunded_noop_when_funded_witness:
  "getBalance (ledger_services []) (outside world_funded) ''escrow''
     = (Inr 890880, outside world_funded) \<and>
   getMinimumBalanceForRentExemption (ledger_services []) (outside world_funded) 0
     = (Inr 890880, outside world_funded) \<and>
   result_of (ensureEscrowFunded (ledger_services []) ''escrow'' player sbProgram0 defaultOpts)
      world_funded = Inr () \<and>
   events_of (ensureEscrowFunded (ledger_services []) ''escrow'' player sbProgram0 defaultOpts)
      world_funded
     = [Rpc (GetBalance ''escrow''), Rpc (GetMinimumBalanceForRentExemption 0),
        ConsoleLog [''  Escrow account funded already'']] \<and>
   sent (calls_of (events_of
      (ensureEscrowFunded (ledger_services []) ''escrow'' player sbProgram0 defaultOpts)
      world_funded)) = []"
proof -
  have le: "(890880::nat) \<le> 890880" by simp
  note t = ensureEscrowFunded_noop_when_funded
             [OF world_funded_reads(1) world_funded_reads(2) le, of player sbProgram0 defaultOpts]
  from t have r: "result_of
      (ensureEscrowFunded (ledger_services []) ''escrow'' player sbProgram0 defaultOpts)
      world_funded = Inr ()"
    by blast
  from t have e: "events_of
      (ensureEscrowFunded (ledger_services []) ''escrow'' player sbProgram0 defaultOpts)
      world_funded
     = [Rpc (GetBalance ''escrow''), Rpc (GetMinimumBalanceForRentExemption 0),
        ConsoleLog [''  Escrow account funded already'']]"
    by blast
  from t have s: "sent (calls_of (events_of
      (ensureEscrowFunded (ledger_services []) ''escrow'' player sbProgram0 defaultOpts)
      world_funded)) = []"
    by blast
  show ?thesis by (intro conjI world_funded_reads r e s)
qed

section \<open>Compute budget\<close>

lemma initializeGame_built_budget:
  assumes "p \<in> set (built (calls_of (events_of
              (initializeGame S myProgram playerStateAccount escrowAccount kp sbProgram) w)))"
  shows "computeUnitPrice p = 75000 \<and> computeUnitLimitMultiple p = 13 / 10"
  using initializeGame_calls [of S myProgram playerStateAccount escrowAccount kp sbProgram w]
    assms
  by (auto simp: handleTransaction_built)

text \<open>
  C9. Every run of \<open>handleTransaction\<close> asks \<open>asV0Tx\<close> for exactly one transaction, with
  compute-unit price 75000 and compute-unit-limit multiple 1.3. Every run of
  \<open>ensureEscrowFunded\<close> that reads a balance below the minimum, with a shortfall that fits
  the lamports field, asks for exactly one transaction, the funding transfer, with the same
  price and multiple. No run of either, nor of \<open>initializeGame\<close>, asks for a transaction
  with another price or multiple.
\<close>

theorem compute_budget_is_fixed:
  "built (calls_of (events_of (handleTransaction sbProgram S ix kp sgs txOpts) w))
     = [\<lparr>connection = rpcEndpoint sbProgram, ixs = ix, payer = publicKey kp, signers = sgs,
         computeUnitPrice = 75000, computeUnitLimitMultiple = 13 / 10\<rparr>] \<and>
   (\<forall>accountBalance n1 minRentExemption n2.
      getBalance S (outside w) escrowAccount = (Inr accountBalance, n1) \<and>
      getMinimumBalanceForRentExemption S n1 0 = (Inr minRentExemption, n2) \<and>
      accountBalance < minRentExemption \<and>
      number_minus minRentExemption accountBalance < 18446744073709551616 \<longrightarrow>
      built (calls_of (events_of (ensureEscrowFunded S escrowAccount kp sbProgram txOpts) w))
        = [\<lparr>connection = rpcEndpoint sbProgram,
            ixs = [SystemTransfer (publicKey kp) escrowAccount
                     (number_minus minRentExemption accountBalance)],
            payer = publicKey kp, signers = [kp],
            computeUnitPrice = 75000, computeUnitLimitMultiple = 13 / 10\<rparr>]) \<and>
   (\<forall>p \<in> set (built (calls_of (events_of
                 (ensureEscrowFunded S escrowAccount kp sbProgram txOpts) w))).
      computeUnitPrice p = 75000 \<and> computeUnitLimitMultiple p = 13 / 10) \<and>
   (\<forall>p \<in> set (built (calls_of (events_of
                 (initializeGame S myProgram playerStateAccount escrowAccount kp sbProgram) w))).
      computeUnitPrice p = 75000 \<and> computeUnitLimitMultiple p = 13 / 10)"
proof -
  have a: "built (calls_of (events_of (handleTransaction sbProgram S ix kp sgs txOpts) w))
     = [\<lparr>connection = rpcEndpoint sbProgram, ixs = ix, payer = publicKey kp, signers = sgs,
         computeUnitPrice = 75000, computeUnitLimitMultiple = 13 / 10\<rparr>]"
    by (rule handleTransaction_built)
  have f: "\<forall>accountBalance n1 minRentExemption n2.
      getBalance S (outside w) escrowAccount = (Inr accountBalance, n1) \<and>
      getMinimumBalanceForRentExemption S n1 0 = (Inr minRentExemption, n2) \<and>
      accountBalance < minRentExemption \<and>
      number_minus minRentExemption accountBalance < 18446744073709551616 \<longrightarrow>
      built (calls_of (events_of (ensureEscrowFunded S escrowAccount kp sbProgram txOpts) w))
        = [\<lparr>connection = rpcEndpoint sbProgram,
            ixs = [SystemTransfer (publicKey kp) escrowAccount
                     (number_minus minRentExemption accountBalance)],
            payer = publicKey kp, signers = [kp],
            computeUnitPrice = 75000, computeUnitLimitMultiple = 13 / 10\<rparr>]"
  proof (intro allI impI)
    fix accountBalance n1 minRentExemption n2
    assume h: "getBalance S (outside w) escrowAccount = (Inr accountBalance, n1) \<and>
      getMinimumBalanceForRentExemption S n1 0 = (Inr minRentExemption, n2) \<and>
      accountBalance < minRentExemption \<and>
      number_minus minRentExemption accountBalance < 18446744073709551616"
    then have g: "getBalance S (outside w) escrowAccount = (Inr accountBalance, n1)"
      and m: "getMinimumBalanceForRentExemption S n1 0 = (Inr minRentExemption, n2)"
      and lt: "accountBalance < minRentExemption"
      and enc: "number_minus minRentExemption accountBalance < 18446744073709551616"
      by simp_all
    from ensureEscrowFunded_funding_branch [OF g m lt enc, of kp sbProgram txOpts]
    show "built (calls_of (events_of
            (ensureEscrowFunded S escrowAccount kp sbProgram txOpts) w))
        = [\<lparr>connection = rpcEndpoint sbProgram,
            ixs = [SystemTransfer (publicKey kp) escrowAccount
                     (number_minus minRentExemption accountBalance)],
            payer = publicKey kp, signers = [kp],
            computeUnitPrice = 75000, computeUnitLimitMultiple = 13 / 10\<rparr>]"
      by (simp add: handleTransaction_built)
  qed
  have b: "\<forall>p \<in> set (built (calls_of (events_of
               (ensureEscrowFunded S escrowAccount kp sbProgram txOpts) w))).
             computeUnitPrice p = 75000 \<and> computeUnitLimitMultiple p = 13 / 10"
    by (intro ballI) (rule ensureEscrowFunded_built_budget)
  have c: "\<forall>p \<in> set (built (calls_of (events_of
               (initializeGame S myProgram playerStateAccount escrowAccount kp sbProgram) w))).
             computeUnitPrice p = 75000 \<and> computeUnitLimitMultiple p = 13 / 10"
    by (intro ballI) (rule initializeGame_built_budget)
  show ?thesis by (intro conjI a f b c)
qed

theorem compute_budget_is_fixed_witness:
  "built (calls_of (events_of
      (handleTransaction sbProgram0 (ledger_services []) [flipIx] player [player] defaultOpts)
      world0))
     = [\<lparr>connection = rpcEndpoint sbProgram0, ixs = [flipIx], payer = publicKey player,
         signers = [player], computeUnitPrice = 75000, computeUnitLimitMultiple = 13 / 10\<rparr>] \<and>
   getBalance (ledger_services []) (outside world0) ''escrow'' = (Inr 0, ledger0) \<and>
   getMinimumBalanceForRentExemption (ledger_services []) ledger0 0 = (Inr 890880, ledger0) \<and>
   number_minus 890880 0 = 890880 \<and>
   built (calls_of (events_of
      (ensureEscrowFunded (ledger_services []) ''escrow'' player sbProgram0 defaultOpts) world0))
     = [\<lparr>connection = rpcEndpoint sbProgram0,
         ixs = [SystemTransfer (publicKey player) ''escrow'' 890880], payer = publicKey player,
         signers = [player], computeUnitPrice = 75000, computeUnitLimitMultiple = 13 / 10\<rparr>]"
proof -
  have g: "getBalance (ledger_services []) (outside world0) ''escrow'' = (Inr 0, ledger0)"
    by (simp add: ledger_reads world0_def ledger0_def)
  have m: "getMinimumBalanceForRentExemption (ledger_services []) ledger0 0
           = (Inr 890880, ledger0)"
    by (simp add: ledger_reads ledger0_def)
  have lt: "(0::nat) < 890880" by simp
  have am: "number_minus 890880 0 = 890880"
    by (simp add: number_minus_exact)
  have enc: "number_minus 890880 0 < 18446744073709551616"
    by (simp add: am)
  note t = compute_budget_is_fixed
             [where S = "ledger_services []" and w = world0 and sbProgram = sbProgram0
                and kp = player and txOpts = defaultOpts and ix = "[flipIx]"
                and sgs = "[player]" and escrowAccount = "''escrow''"]
  from t have 1: "built (calls_of (events_of
      (handleTransaction sbProgram0 (ledger_services []) [flipIx] player [player] defaultOpts)
      world0))
     = [\<lparr>connection = rpcEndpoint sbProgram0, ixs = [flipIx], payer = publicKey player,
         signers = [player], computeUnitPrice = 75000, computeUnitLimitMultiple = 13 / 10\<rparr>]"
    by blast
  from t g m lt enc have "built (calls_of (events_of
      (ensureEscrowFunded (ledger_services []) ''escrow'' player sbProgram0 defaultOpts) world0))
     = [\<lparr>connection = rpcEndpoint sbProgram0,
         ixs = [SystemTransfer (publicKey player) ''escrow'' (number_minus 890880 0)],
         payer = publicKey player, signers = [player], computeUnitPrice = 75000,
         computeUnitLimitMultiple = 13 / 10\<rparr>]"
    by blast
  then have 2: "built (calls_of (events_of
      (ensureEscrowFunded (ledger_services []) ''escrow'' player sbProgram0 defaultOpts) world0))
     = [\<lparr>connection = rpcEndpoint sbProgram0,
         ixs = [SystemTransfer (publicKey player) ''escrow'' 890880], payer = publicKey player,
         signers = [player], computeUnitPrice = 75000, computeUnitLimitMultiple = 13 / 10\<rparr>]"
    by (simp only: am)
  show ?thesis by (intro conjI 1 g m am 2)
qed

section \<open>The guess\<close>

lemma toLowerCase_trim_Heads: "toLowerCase (trim ''Heads '') = ''heads''"
  by (simp add: trim_def toLowerCase_def toLowerCase_char_def isWhiteSpace_def char_of_eq_iff)

lemma ledger_argv2:
  "argv2 (ledger_services [a, b]) = None"
  "argv2 (ledger_services [a, b, c]) = Some c"
  by (simp_all add: argv2_def ledger_services_def)

lemma ledger_question:
  "question (ledger_services args) (outside world0) prompt = (''Heads '', ledger0)"
  by (simp add: ledger_services_def world0_def ledger0_def)

text \<open>
  C2. The code at the failing input: the argument \<open>Heads\<close> followed by a space trims and
  lowercases to \<open>heads\<close>, and given as \<open>process.argv[2]\<close> it ends the process with exit code
  1 after the error message, while the same text typed at the prompt returns true.
\<close>

theorem getUserGuessFromCommandLine_rejects_capitalised_argument:
  \<open>toLowerCase (trim ''Heads '') = ''heads'' \<and>
   result_of (getUserGuessFromCommandLine (ledger_services [''node'', ''flip.ts'', ''Heads '']))
      world0 = Inl (ProcessExit 1) \<and>
   events_of (getUserGuessFromCommandLine (ledger_services [''node'', ''flip.ts'', ''Heads '']))
      world0 = [ConsoleError [''Please provide a valid guess: "heads" or "tails".'']] \<and>
   question (ledger_services [''node'', ''flip.ts'']) (outside world0)
      ''It is now time to make your prediction: Heads or tails... '' = (''Heads '', ledger0) \<and>
   result_of (getUserGuessFromCommandLine (ledger_services [''node'', ''flip.ts''])) world0
     = Inr True\<close>
  by (simp add: getUserGuessFromCommandLine_def io_defs Let_def ledger_argv2 falsy_def
        ledger_question toLowerCase_trim_Heads)

lemma toLowerCase_trim_literals:
  "toLowerCase (trim ''heads'') = ''heads''"
  "toLowerCase (trim ''tails'') = ''tails''"
  by (simp_all add: trim_def toLowerCase_def toLowerCase_char_def isWhiteSpace_def char_of_eq_iff)

text \<open>
  C3 (as amended). The guess \<open>heads\<close> returns true and the guess \<open>tails\<close> returns false,
  where the guess is \<open>process.argv[2]\<close> as given when it is not empty, and otherwise the
  answer to the prompt after trimming and lowercasing. A prompt answer that after trimming
  and lowercasing is neither, and an argument that even after trimming and lowercasing is
  neither, ends the process with exit code 1. In no case does the function call the
  network.
\<close>

theorem getUserGuessFromCommandLine_maps_or_rejects:
  "(\<forall>s. argv2 S = Some s \<and> s \<noteq> [] \<longrightarrow>
      (s = ''heads'' \<longrightarrow> result_of (getUserGuessFromCommandLine S) w = Inr True) \<and>
      (s = ''tails'' \<longrightarrow> result_of (getUserGuessFromCommandLine S) w = Inr False) \<and>
      (toLowerCase (trim s) \<noteq> ''heads'' \<and> toLowerCase (trim s) \<noteq> ''tails'' \<longrightarrow>
         result_of (getUserGuessFromCommandLine S) w = Inl (ProcessExit 1))) \<and>
   (\<forall>answer n'.
      falsy (argv2 S) \<and>
      question S (outside w) ''It is now time to make your prediction: Heads or tails... ''
        = (answer, n') \<longrightarrow>
      (toLowerCase (trim answer) = ''heads'' \<longrightarrow>
         result_of (getUserGuessFromCommandLine S) w = Inr True) \<and>
      (toLowerCase (trim answer) = ''tails'' \<longrightarrow>
         result_of (getUserGuessFromCommandLine S) w = Inr False) \<and>
      (toLowerCase (trim answer) \<noteq> ''heads'' \<and> toLowerCase (trim answer) \<noteq> ''tails'' \<longrightarrow>
         result_of (getUserGuessFromCommandLine S) w = Inl (ProcessExit 1))) \<and>
   calls_of (events_of (getUserGuessFromCommandLine S) w) = []"
proof (intro conjI allI impI)
  fix s
  assume "argv2 S = Some s \<and> s \<noteq> []" and "s = ''heads''"
  then show "result_of (getUserGuessFromCommandLine S) w = Inr True"
    unfolding getUserGuessFromCommandLine_def io_defs Let_def
    by (simp add: falsy_def)
next
  fix s
  assume "argv2 S = Some s \<and> s \<noteq> []" and "s = ''tails''"
  then show "result_of (getUserGuessFromCommandLine S) w = Inr False"
    unfolding getUserGuessFromCommandLine_def io_defs Let_def
    by (simp add: falsy_def)
next
  fix s
  assume a: "argv2 S = Some s \<and> s \<noteq> []"
    and n: "toLowerCase (trim s) \<noteq> ''heads'' \<and> toLowerCase (trim s) \<noteq> ''tails''"
  from n have "s \<noteq> ''heads'' \<and> s \<noteq> ''tails''"
    using toLowerCase_trim_literals by auto
  with a show "result_of (getUserGuessFromCommandLine S) w = Inl (ProcessExit 1)"
    unfolding getUserGuessFromCommandLine_def io_defs Let_def
    by (simp add: falsy_def)
next
  fix answer n'
  assume "falsy (argv2 S) \<and>
      question S (outside w) ''It is now time to make your prediction: Heads or tails... ''
        = (answer, n')"
    and "toLowerCase (trim answer) = ''heads''"
  then show "result_of (getUserGuessFromCommandLine S) w = Inr True"
    unfolding getUserGuessFromCommandLine_def io_defs Let_def
    by simp
next
  fix answer n'
  assume "falsy (argv2 S) \<and>
      question S (outside w) ''It is now time to make your prediction: Heads or tails... ''
        = (answer, n')"
    and "toLowerCase (trim answer) = ''tails''"
  then show "result_of (getUserGuessFromCommandLine S) w = Inr False"
    unfolding getUserGuessFromCommandLine_def io_defs Let_def
    by simp
next
  fix answer n'
  assume "falsy (argv2 S) \<and>
      question S (outside w) ''It is now time to make your prediction: Heads or tails... ''
        = (answer, n')"
    and "toLowerCase (trim answer) \<noteq> ''heads'' \<and> toLowerCase (trim answer) \<noteq> ''tails''"
  then show "result_of (getUserGuessFromCommandLine S) w = Inl (ProcessExit 1)"
    unfolding getUserGuessFromCommandLine_def io_defs Let_def
    by simp
next
  show "calls_of (events_of (getUserGuessFromCommandLine S) w) = []"
    unfolding getUserGuessFromCommandLine_def io_defs Let_def
    by (auto split: prod.splits sum.splits)
qed

theorem getUserGuessFromCommandLine_maps_or_rejects_witness:
  "argv2 (ledger_services [''node'', ''flip.ts'', ''heads'']) = Some ''heads'' \<and>
   result_of (getUserGuessFromCommandLine (ledger_services [''node'', ''flip.ts'', ''heads'']))
      world0 = Inr True \<and>
   argv2 (ledger_services [''node'', ''flip.ts'', ''tails'']) = Some ''tails'' \<and>
   result_of (getUserGuessFromCommandLine (ledger_services [''node'', ''flip.ts'', ''tails'']))
      world0 = Inr False \<and>
   argv2 (ledger_services [''node'', ''flip.ts'', ''edge'']) = Some ''edge'' \<and>
   toLowerCase (trim ''edge'') = ''edge'' \<and>
   result_of (getUserGuessFromCommandLine (ledger_services [''node'', ''flip.ts'', ''edge'']))
      world0 = Inl (ProcessExit 1) \<and>
   falsy (argv2 (ledger_services [''node'', ''flip.ts''])) \<and>
   question (ledger_services [''node'', ''flip.ts'']) (outside world0)
      ''It is now time to make your prediction: Heads or tails... '' = (''Heads '', ledger0) \<and>
   result_of (getUserGuessFromCommandLine (ledger_services [''node'', ''flip.ts''])) world0
     = Inr True \<and>
   calls_of (events_of (getUserGuessFromCommandLine (ledger_services [''node'', ''flip.ts'']))
      world0) = []"
proof -
  have h: "argv2 (ledger_services [''node'', ''flip.ts'', ''heads'']) = Some ''heads''"
    and t: "argv2 (ledger_services [''node'', ''flip.ts'', ''tails'']) = Some ''tails''"
    and e: "argv2 (ledger_services [''node'', ''flip.ts'', ''edge'']) = Some ''edge''"
    and p: "falsy (argv2 (ledger_services [''node'', ''flip.ts'']))"
    by (simp_all add: ledger_argv2 falsy_def)
  have q: "question (ledger_services [''node'', ''flip.ts'']) (outside world0)
      ''It is now time to make your prediction: Heads or tails... '' = (''Heads '', ledger0)"
    by (rule ledger_question)
  have ne: "toLowerCase (trim ''edge'') = ''edge''"
    by (simp add: trim_def toLowerCase_def toLowerCase_char_def isWhiteSpace_def char_of_eq_iff)
  have nee: "''heads'' \<noteq> [] \<and> ''tails'' \<noteq> [] \<and> ''edge'' \<noteq> [] \<and>
             ''edge'' \<noteq> ''heads'' \<and> ''edge'' \<noteq> ''tails''"
    by simp
  from getUserGuessFromCommandLine_maps_or_rejects
         [of "ledger_services [''node'', ''flip.ts'', ''heads'']" world0] h nee
  have 1: "result_of (getUserGuessFromCommandLine
      (ledger_services [''node'', ''flip.ts'', ''heads''])) world0 = Inr True"
    by blast
  from getUserGuessFromCommandLine_maps_or_rejects
         [of "ledger_services [''node'', ''flip.ts'', ''tails'']" world0] t nee
  have 2: "result_of (getUserGuessFromCommandLine
      (ledger_services [''node'', ''flip.ts'', ''tails''])) world0 = Inr False"
    by blast
  from getUserGuessFromCommandLine_maps_or_rejects
         [of "ledger_services [''node'', ''flip.ts'', ''edge'']" world0] e nee ne
  have 3: "result_of (getUserGuessFromCommandLine
      (ledger_services [''node'', ''flip.ts'', ''edge''])) world0 = Inl (ProcessExit 1)"
    by simp
  from getUserGuessFromCommandLine_maps_or_rejects
         [of "ledger_services [''node'', ''flip.ts'']" world0] p q toLowerCase_trim_Heads
  have 4: "result_of (getUserGuessFromCommandLine (ledger_services [''node'', ''flip.ts'']))
      world0 = Inr True"
    and 5: "calls_of (events_of (getUserGuessFromCommandLine
      (ledger_services [''node'', ''flip.ts''])) world0) = []"
    by blast+
  show ?thesis by (intro conjI h 1 t 2 e ne 3 p q 4 5)
qed

text \<open>
  C3, the claim as stated, fails: the prompt answer \<open>Heads\<close> followed by a space is neither
  \<open>heads\<close> nor \<open>tails\<close>, and it is not rejected but returns true.
\<close>

theorem getUserGuessFromCommandLine_accepts_untrimmed_answer:
  "''Heads '' \<noteq> ''heads'' \<and> ''Heads '' \<noteq> ''tails'' \<and>
   falsy (argv2 (ledger_services [''node'', ''flip.ts''])) \<and>
   question (ledger_services [''node'', ''flip.ts'']) (outside world0)
      ''It is now time to make your prediction: Heads or tails... '' = (''Heads '', ledger0) \<and>
   result_of (getUserGuessFromCommandLine (ledger_services [''node'', ''flip.ts''])) world0
     = Inr True"
  by (simp add: getUserGuessFromCommandLine_def io_defs Let_def ledger_argv2 falsy_def
        ledger_question toLowerCase_trim_Heads)

text \<open>
  C10. An empty \<open>process.argv[2]\<close> is treated as an absent one: the run is the run with no
  arguments at all, it starts by asking the prompt, and its outcome is decided by the
  trimmed and lowercased answer. A non-empty \<open>process.argv[2]\<close> is validated as it stands,
  with no prompt and no trimming or lowercasing.
\<close>

theorem getUserGuessFromCommandLine_empty_argument_prompts:
  "(argv2 S = Some [] \<longrightarrow>
      getUserGuessFromCommandLine S w = getUserGuessFromCommandLine (S\<lparr>argv := []\<rparr>) w \<and>
      events_of (getUserGuessFromCommandLine S) w \<noteq> [] \<and>
      hd (events_of (getUserGuessFromCommandLine S) w)
        = Question ''It is now time to make your prediction: Heads or tails... '' \<and>
      result_of (getUserGuessFromCommandLine S) w
        = (let answer = fst (question S (outside w)
                   ''It is now time to make your prediction: Heads or tails... '')
           in if toLowerCase (trim answer) = ''heads'' then Inr True
              else if toLowerCase (trim answer) = ''tails'' then Inr False
              else Inl (ProcessExit 1))) \<and>
   (\<forall>s. argv2 S = Some s \<and> s \<noteq> [] \<longrightarrow>
      (\<forall>p. Question p \<notin> set (events_of (getUserGuessFromCommandLine S) w)) \<and>
      result_of (getUserGuessFromCommandLine S) w
        = (if s = ''heads'' then Inr True
           else if s = ''tails'' then Inr False
           else Inl (ProcessExit 1)))"
  unfolding getUserGuessFromCommandLine_def io_defs Let_def
  by (auto simp: argv2_def falsy_def split: prod.splits sum.splits)

theorem getUserGuessFromCommandLine_empty_argument_prompts_witness:
  "argv2 (ledger_services [''node'', ''flip.ts'', []]) = Some [] \<and>
   hd (events_of (getUserGuessFromCommandLine (ledger_services [''node'', ''flip.ts'', []]))
      world0) = Question ''It is now time to make your prediction: Heads or tails... '' \<and>
   result_of (getUserGuessFromCommandLine (ledger_services [''node'', ''flip.ts'', []])) world0
     = Inr True \<and>
   argv2 (ledger_services [''node'', ''flip.ts'', ''Heads'']) = Some ''Heads'' \<and>
   result_of (getUserGuessFromCommandLine (ledger_services [''node'', ''flip.ts'', ''Heads'']))
      world0 = Inl (ProcessExit 1)"
proof -
  have a: "argv2 (ledger_services [''node'', ''flip.ts'', []]) = Some []"
    by (simp add: ledger_argv2)
  have b: "argv2 (ledger_services [''node'', ''flip.ts'', ''Heads'']) = Some ''Heads''"
    by (simp add: ledger_argv2)
  from getUserGuessFromCommandLine_empty_argument_prompts
         [of "ledger_services [''node'', ''flip.ts'', []]" world0] a
  have 1: "hd (events_of (getUserGuessFromCommandLine
        (ledger_services [''node'', ''flip.ts'', []])) world0)
      = Question ''It is now time to make your prediction: Heads or tails... ''"
    and "result_of (getUserGuessFromCommandLine (ledger_services [''node'', ''flip.ts'', []]))
        world0
      = (let answer = fst (question (ledger_services [''node'', ''flip.ts'', []])
                   (outside world0)
                   ''It is now time to make your prediction: Heads or tails... '')
           in if toLowerCase (trim answer) = ''heads'' then Inr True
              else if toLowerCase (trim answer) = ''tails'' then Inr False
              else Inl (ProcessExit 1))"
    by blast+
  then have 2: "result_of (getUserGuessFromCommandLine
        (ledger_services [''node'', ''flip.ts'', []])) world0 = Inr True"
    by (simp add: ledger_question toLowerCase_trim_Heads)
  from getUserGuessFromCommandLine_empty_argument_prompts
         [of "ledger_services [''node'', ''flip.ts'', ''Heads'']" world0] b
  have "result_of (getUserGuessFromCommandLine
        (ledger_services [''node'', ''flip.ts'', ''Heads''])) world0
      = (if ''Heads'' = ''heads'' then Inr True
           else if ''Heads'' = ''tails'' then Inr False
           else Inl (ProcessExit 1))"
    by blast
  then have 3: "result_of (getUserGuessFromCommandLine
        (ledger_services [''node'', ''flip.ts'', ''Heads''])) world0 = Inl (ProcessExit 1)"
    by simp
  show ?thesis by (intro conjI a b 1 2 3)
qed

end
